theory Spec2Isabelle
  imports Main
begin

section \<open>Python strings\<close>

text \<open>
  A Python \<^verbatim>\<open>str\<close> is modelled by its UTF-8 encoding, a list of bytes: an ASCII
  character is one byte, any other code point two to four bytes, the first of which is
  not a continuation byte. Concatenation, equality, emptiness and \<^verbatim>\<open>startswith\<close> on
  the code points are the same operations on the bytes. The operations below are the
  \<^verbatim>\<open>str\<close> methods that \<^verbatim>\<open>imports/import_resources.py\<close> calls: \<^verbatim>\<open>strip()\<close>,
  \<^verbatim>\<open>strip(chars)\<close>, \<^verbatim>\<open>lower()\<close>, \<^verbatim>\<open>startswith(p)\<close>, \<^verbatim>\<open>sep.join(xs)\<close>
  and the decimal rendering of \<^verbatim>\<open>len(commands)\<close> inside an f-string.
\<close>

text \<open>
  The code points that \<^verbatim>\<open>str.isspace\<close> accepts and \<^verbatim>\<open>str.strip()\<close> removes, each
  as its encoding: U+0009 to U+000D, U+001C to U+001F, U+0020, U+0085, U+00A0, U+1680,
  U+2000 to U+200A, U+2028, U+2029, U+202F, U+205F and U+3000.
\<close>

definition py_whitespace :: "string list" where
  "py_whitespace =
     map (\<lambda>c. [c]) [CHR 0x09, CHR 0x0A, CHR 0x0B, CHR 0x0C, CHR 0x0D,
                   CHR 0x1C, CHR 0x1D, CHR 0x1E, CHR 0x1F, CHR 0x20]
     @ [[CHR 0xC2, CHR 0x85], [CHR 0xC2, CHR 0xA0], [CHR 0xE1, CHR 0x9A, CHR 0x80]]
     @ map (\<lambda>c. [CHR 0xE2, CHR 0x80, c])
         [CHR 0x80, CHR 0x81, CHR 0x82, CHR 0x83, CHR 0x84, CHR 0x85, CHR 0x86, CHR 0x87,
          CHR 0x88, CHR 0x89, CHR 0x8A, CHR 0xA8, CHR 0xA9, CHR 0xAF]
     @ [[CHR 0xE2, CHR 0x81, CHR 0x9F], [CHR 0xE3, CHR 0x80, CHR 0x80]]"

definition py_isspace :: "string \<Rightarrow> bool" where
  "py_isspace w = (w \<in> set py_whitespace)"

text \<open>
  Removing from the front every code point that \<open>ws\<close> accepts. The encodings in
  question are one, two or three bytes long, and the first byte of an encoding fixes
  its length, so at most one of the three tests can succeed.
\<close>

fun strip_front :: "(string \<Rightarrow> bool) \<Rightarrow> string \<Rightarrow> string" where
  "strip_front ws (a # b # c # s) =
     (if ws [a] then strip_front ws (b # c # s)
      else if ws [a, b] then strip_front ws (c # s)
      else if ws [a, b, c] then strip_front ws s
      else a # b # c # s)"
| "strip_front ws [a, b] =
     (if ws [a] then strip_front ws [b] else if ws [a, b] then [] else [a, b])"
| "strip_front ws [a] = (if ws [a] then [] else [a])"
| "strip_front ws [] = []"

definition py_lstrip :: "string \<Rightarrow> string" where
  "py_lstrip s = strip_front py_isspace s"

text \<open>The same from the end: on the reversed bytes, with each encoding read backwards.\<close>

definition py_rstrip :: "string \<Rightarrow> string" where
  "py_rstrip s = rev (strip_front (\<lambda>w. py_isspace (rev w)) (rev s))"

definition py_strip :: "string \<Rightarrow> string" where
  "py_strip s = py_rstrip (py_lstrip s)"

text \<open>\<^verbatim>\<open>strip(chars)\<close> for ASCII \<open>chars\<close>: a byte of \<open>chars\<close> is a whole code point.\<close>

definition py_strip_by :: "(char \<Rightarrow> bool) \<Rightarrow> string \<Rightarrow> string" where
  "py_strip_by p s = rev (dropWhile p (rev (dropWhile p s)))"

definition py_strip_chars :: "string \<Rightarrow> string \<Rightarrow> string" where
  "py_strip_chars cs s = py_strip_by (\<lambda>c. c \<in> set cs) s"

text \<open>
  \<^verbatim>\<open>lower()\<close> on the ASCII letters. The script only compares the lowered text with the
  ASCII word \<open>true\<close>; no code point outside ASCII is lowered to one of its letters, so
  the comparison is the one the code makes.
\<close>

definition py_lower_char :: "char \<Rightarrow> char" where
  "py_lower_char c =
     (let n = (of_char c :: nat) in if 65 \<le> n \<and> n \<le> 90 then char_of (n + 32) else c)"

definition py_lower :: "string \<Rightarrow> string" where
  "py_lower s = map py_lower_char s"

definition py_startswith :: "string \<Rightarrow> string \<Rightarrow> bool" where
  "py_startswith s p = (take (length p) s = p)"

fun py_join :: "string \<Rightarrow> string list \<Rightarrow> string" where
  "py_join sep [] = []"
| "py_join sep [x] = x"
| "py_join sep (x # y # ys) = x @ sep @ py_join sep (y # ys)"

definition digit_char :: "nat \<Rightarrow> char" where
  "digit_char d = char_of (48 + d)"

fun py_str_nat :: "nat \<Rightarrow> string" where
  "py_str_nat n = (if n < 10 then [digit_char n] else py_str_nat (n div 10) @ [digit_char (n mod 10)])"

declare py_str_nat.simps [simp del]

text \<open>Truthiness of an \<^verbatim>\<open>Optional[str]\<close>: \<^verbatim>\<open>None\<close> and the empty string are falsy.\<close>

fun py_truthy :: "string option \<Rightarrow> bool" where
  "py_truthy None = False"
| "py_truthy (Some s) = (s \<noteq> [])"

section \<open>Exceptions\<close>

text \<open>
  \<^verbatim>\<open>CalledProcessError\<close> carries its message and the captured error stream.
  \<^verbatim>\<open>OtherException\<close> is any other subclass of \<^verbatim>\<open>Exception\<close> (a missing executable,
  a transport or authorization error of the cloud client, ...), with its message.
  \<^verbatim>\<open>KeyboardInterrupt\<close> and \<^verbatim>\<open>SystemExit\<close> are not subclasses of \<^verbatim>\<open>Exception\<close>:
  \<^verbatim>\<open>except Exception\<close> lets them through, a bare \<^verbatim>\<open>except:\<close> catches them.
\<close>

datatype exn =
    CalledProcessError string string
  | OtherException string
  | KeyboardInterrupt
  | SystemExit nat

fun is_Exception :: "exn \<Rightarrow> bool" where
  "is_Exception (CalledProcessError m err) = True"
| "is_Exception (OtherException m) = True"
| "is_Exception KeyboardInterrupt = False"
| "is_Exception (SystemExit c) = False"

text \<open>\<^verbatim>\<open>str(e)\<close>; the script formats only exceptions caught by \<^verbatim>\<open>except Exception\<close>.\<close>

fun exn_str :: "exn \<Rightarrow> string" where
  "exn_str (CalledProcessError m err) = m"
| "exn_str (OtherException m) = m"
| "exn_str KeyboardInterrupt = []"
| "exn_str (SystemExit c) = py_str_nat c"

section \<open>The outside world\<close>

text \<open>
  Every effect of the script is an event appended to a trace: a line printed, a
  subprocess started (argument vector and standard input), a session opened for a
  profile, the bucket listing, the creation of the role paginator and the fetch of one
  page of roles.

  What the collaborators answer is given by a \<open>world\<close>: each answer may depend on
  everything that happened before (the trace at the moment of the call).
  \<^verbatim>\<open>subprocess.run(..., check=True)\<close> returns the captured standard output or raises;
  the bucket listing returns the bucket names or raises; the paginator is the list of
  its pages, each of which is the role names on it or an exception raised on fetching it.
\<close>

datatype event =
    Print string
  | Subprocess "string list" "string option"
  | Session string
  | ListBuckets
  | GetPaginator
  | FetchRolesPage

type_synonym trace = "event list"

record world =
  subprocess_run :: "trace \<Rightarrow> string list \<Rightarrow> string option \<Rightarrow> exn + string"
  boto3_session :: "trace \<Rightarrow> string \<Rightarrow> exn option"
  list_buckets :: "trace \<Rightarrow> exn + string list"
  list_roles :: "trace \<Rightarrow> (exn + string list) list"

section \<open>TerraformImporter\<close>

record importer =
  profile :: string
  workspace :: string
  project_name :: string
  resource_prefix :: string

definition nl :: string where
  "nl = [CHR 0x0A]"

definition get_current_workspace :: "world \<Rightarrow> trace \<Rightarrow> (exn + string) \<times> trace" where
  "get_current_workspace W tr =
     (let argv = [''terraform'', ''workspace'', ''show''];
          tr1 = tr @ [Subprocess argv None]
      in case subprocess_run W tr argv None of
           Inr out \<Rightarrow> (Inr (py_strip out), tr1)
         | Inl (CalledProcessError m err) \<Rightarrow>
             (Inl (SystemExit 1),
              tr1 @ [Print ''Error: Could not get current Terraform workspace''])
         | Inl e \<Rightarrow> (Inl e, tr1))"

definition get_project_name :: "world \<Rightarrow> trace \<Rightarrow> string \<times> trace" where
  "get_project_name W tr =
     (let argv = [''terraform'', ''console''];
          inp = Some (''var.project_name'' @ nl);
          tr1 = tr @ [Subprocess argv inp]
      in case subprocess_run W tr argv inp of
           Inr out \<Rightarrow>
             (let pn = py_strip_chars [CHR 0x22] (py_strip out)
              in (if pn \<noteq> [] then pn else ''terraform-core'', tr1))
         | Inl e \<Rightarrow> (''terraform-core'', tr1))"

text \<open>The f-string of line 36.\<close>

definition prefix_of :: "string \<Rightarrow> string \<Rightarrow> string" where
  "prefix_of pn ws = pn @ ''-state-files-'' @ ws"

text \<open>
  \<^verbatim>\<open>__init__\<close>. \<^verbatim>\<open>workspace or self._get_current_workspace()\<close> asks the tool when the
  argument is falsy. Opening the session and creating the two clients is one event;
  an exception there leaves the constructor.
\<close>

definition init :: "world \<Rightarrow> string \<Rightarrow> string option \<Rightarrow> trace \<Rightarrow> (exn + importer) \<times> trace" where
  "init W prof ws tr =
     (case (case ws of
              None \<Rightarrow> get_current_workspace W tr
            | Some w \<Rightarrow> if w \<noteq> [] then (Inr w, tr) else get_current_workspace W tr) of
        (Inl e, tr1) \<Rightarrow> (Inl e, tr1)
      | (Inr w, tr1) \<Rightarrow>
          (case boto3_session W tr1 prof of
             Some e \<Rightarrow> (Inl e, tr1 @ [Session prof])
           | None \<Rightarrow>
               (case get_project_name W (tr1 @ [Session prof]) of
                  (pn, tr2) \<Rightarrow>
                    (Inr \<lparr>profile = prof, workspace = w, project_name = pn,
                          resource_prefix = prefix_of pn w\<rparr>, tr2))))"

text \<open>The \<^verbatim>\<open>for\<close> loop over the names of a listing: the first name with the prefix.\<close>

fun first_match :: "string \<Rightarrow> string list \<Rightarrow> string option" where
  "first_match p [] = None"
| "first_match p (n # ns) = (if py_startswith n p then Some n else first_match p ns)"

definition discover_s3_bucket :: "world \<Rightarrow> importer \<Rightarrow> trace \<Rightarrow> (exn + string option) \<times> trace" where
  "discover_s3_bucket W imp tr =
     (let tr1 = tr @ [ListBuckets]
      in case list_buckets W tr of
           Inr names \<Rightarrow>
             (case first_match (resource_prefix imp) names of
                Some n \<Rightarrow> (Inr (Some n), tr1 @ [Print (''Found S3 bucket: '' @ n)])
              | None \<Rightarrow> (Inr None, tr1))
         | Inl e \<Rightarrow>
             if is_Exception e
             then (Inr None, tr1 @ [Print (''Error discovering S3 bucket: '' @ exn_str e)])
             else (Inl e, tr1))"

text \<open>The loop over the pages of the paginator; a page is fetched when the loop reaches it.\<close>

fun scan_pages :: "string \<Rightarrow> (exn + string list) list \<Rightarrow> trace \<Rightarrow> (exn + string option) \<times> trace" where
  "scan_pages p [] tr = (Inr None, tr)"
| "scan_pages p (Inl e # pages) tr = (Inl e, tr @ [FetchRolesPage])"
| "scan_pages p (Inr roles # pages) tr =
     (case first_match p roles of
        Some n \<Rightarrow> (Inr (Some n), tr @ [FetchRolesPage, Print (''Found IAM role: '' @ n)])
      | None \<Rightarrow> scan_pages p pages (tr @ [FetchRolesPage]))"

definition discover_iam_role :: "world \<Rightarrow> importer \<Rightarrow> trace \<Rightarrow> (exn + string option) \<times> trace" where
  "discover_iam_role W imp tr =
     (case scan_pages (resource_prefix imp) (list_roles W tr) (tr @ [GetPaginator]) of
        (Inl e, tr1) \<Rightarrow>
          if is_Exception e
          then (Inr None, tr1 @ [Print (''Error discovering IAM role: '' @ exn_str e)])
          else (Inl e, tr1)
      | (Inr r, tr1) \<Rightarrow> (Inr r, tr1))"

type_synonym plan = "(string \<times> string) list"

definition get_import_commands :: "world \<Rightarrow> importer \<Rightarrow> trace \<Rightarrow> (exn + plan) \<times> trace" where
  "get_import_commands W imp tr =
     (case discover_s3_bucket W imp tr of
        (Inl e, tr1) \<Rightarrow> (Inl e, tr1)
      | (Inr s3_bucket, tr1) \<Rightarrow>
          (case discover_iam_role W imp tr1 of
             (Inl e, tr2) \<Rightarrow> (Inl e, tr2)
           | (Inr iam_role, tr2) \<Rightarrow>
               if \<not> py_truthy s3_bucket
               then (Inr [], tr2 @ [Print ''Warning: No S3 bucket found matching the expected prefix''])
               else if \<not> py_truthy iam_role
               then (Inr [], tr2 @ [Print ''Warning: No IAM role found matching the expected prefix''])
               else (case (s3_bucket, iam_role) of
                       (Some b, Some r) \<Rightarrow>
                         (Inr [(''aws_s3_bucket.terraform_state'', b),
                               (''aws_s3_bucket_versioning.terraform_state_versioning'', b),
                               (''aws_s3_bucket_server_side_encryption_configuration.terraform_state_encryption'', b),
                               (''aws_s3_bucket_public_access_block.terraform_state_pab'', b),
                               (''aws_s3_bucket_lifecycle_configuration.terraform_state_lifecycle'', b),
                               (''aws_iam_role.terraform_state_role'', r),
                               (''aws_iam_role_policy.terraform_state_policy'',
                                r @ '':terraform-state-files-policy'')], tr2)
                     | _ \<Rightarrow> (Inr [], tr2))))"

definition check_import_needed :: "world \<Rightarrow> trace \<Rightarrow> bool \<times> trace" where
  "check_import_needed W tr =
     (let argv = [''terraform'', ''console''];
          inp = Some (''var.import_existing_resources'' @ nl);
          tr1 = tr @ [Subprocess argv inp]
      in case subprocess_run W tr argv inp of
           Inr out \<Rightarrow> (py_lower (py_strip out) = ''true'', tr1)
         | Inl e \<Rightarrow> (False, tr1))"

definition import_argv :: "string \<Rightarrow> string \<Rightarrow> string list" where
  "import_argv resource_address resource_id =
     [''terraform'', ''import'', resource_address, resource_id]"

definition check_mark :: string where
  "check_mark = [CHR 0xE2, CHR 0x9C, CHR 0x93]"

definition cross_mark :: string where
  "cross_mark = [CHR 0xE2, CHR 0x9C, CHR 0x97]"

text \<open>
  The \<^verbatim>\<open>for\<close> loop of \<^verbatim>\<open>run_import\<close>. Only \<^verbatim>\<open>CalledProcessError\<close> is caught inside
  the loop; any other exception of the subprocess call leaves it.
\<close>

fun import_loop :: "world \<Rightarrow> bool \<Rightarrow> plan \<Rightarrow> trace \<Rightarrow> (exn + unit) \<times> trace" where
  "import_loop W dry_run [] tr = (Inr (), tr)"
| "import_loop W dry_run ((resource_address, resource_id) # commands) tr =
     (let command = import_argv resource_address resource_id;
          command_str = py_join '' '' command
      in if dry_run
         then import_loop W dry_run commands
                (tr @ [Print (''[DRY RUN] Would run: '' @ command_str)])
         else
           (let tr1 = tr @ [Print (''Running: '' @ command_str)];
                tr2 = tr1 @ [Subprocess command None]
            in case subprocess_run W tr1 command None of
                 Inr out \<Rightarrow>
                   import_loop W dry_run commands
                     (tr2 @ [Print (check_mark @ '' Successfully imported '' @ resource_address),
                             Print []])
               | Inl (CalledProcessError m err) \<Rightarrow>
                   import_loop W dry_run commands
                     (tr2 @ [Print (cross_mark @ '' Failed to import '' @ resource_address
                                    @ '': '' @ err),
                             Print []])
               | Inl e \<Rightarrow> (Inl e, tr2)))"

definition banner :: "importer \<Rightarrow> trace" where
  "banner imp =
     [Print (''Starting import process for workspace: '' @ workspace imp),
      Print (''Using AWS profile: '' @ profile imp),
      Print (''Resource prefix: '' @ resource_prefix imp),
      Print []]"

definition run_import :: "world \<Rightarrow> importer \<Rightarrow> bool \<Rightarrow> trace \<Rightarrow> (exn + unit) \<times> trace" where
  "run_import W imp dry_run tr =
     (case check_import_needed W tr of
        (False, tr1) \<Rightarrow>
          (Inr (),
           tr1 @ [Print ''Import not needed: var.import_existing_resources is not set to true''])
      | (True, tr1) \<Rightarrow>
          (case get_import_commands W imp (tr1 @ banner imp) of
             (Inl e, tr2) \<Rightarrow> (Inl e, tr2)
           | (Inr commands, tr2) \<Rightarrow>
               if commands = []
               then (Inr (), tr2 @ [Print ''No resources found to import''])
               else import_loop W dry_run commands
                      (tr2 @ [Print (''Found '' @ py_str_nat (length commands)
                                     @ '' resources to import:''),
                              Print []])))"

section \<open>Observations on a trace\<close>

text \<open>The import invocations of a trace: \<^verbatim>\<open>terraform import ADDRESS ID\<close>, in order.\<close>

fun import_call :: "event \<Rightarrow> (string \<times> string) option" where
  "import_call (Subprocess [tool, sub, resource_address, resource_id] None) =
     (if tool = ''terraform'' \<and> sub = ''import'' then Some (resource_address, resource_id)
      else None)"
| "import_call e = None"

fun imports_of :: "trace \<Rightarrow> plan" where
  "imports_of [] = []"
| "imports_of (e # tr) =
     (case import_call e of Some c \<Rightarrow> c # imports_of tr | None \<Rightarrow> imports_of tr)"

text \<open>The calls to the cloud listing interfaces.\<close>

fun is_discovery :: "event \<Rightarrow> bool" where
  "is_discovery ListBuckets = True"
| "is_discovery GetPaginator = True"
| "is_discovery FetchRolesPage = True"
| "is_discovery e = False"

definition discovery_of :: "trace \<Rightarrow> trace" where
  "discovery_of tr = filter is_discovery tr"

text \<open>Every external call that is not an import invocation (printing is not a call).\<close>

fun is_other_call :: "event \<Rightarrow> bool" where
  "is_other_call (Print s) = False"
| "is_other_call e = (import_call e = None)"

definition other_calls :: "trace \<Rightarrow> trace" where
  "other_calls tr = filter is_other_call tr"




text \<open>What \<^verbatim>\<open>__init__\<close> establishes between the fields of an importer.\<close>

definition importer_inv :: "importer \<Rightarrow> bool" where
  "importer_inv imp = (resource_prefix imp = prefix_of (project_name imp) (workspace imp))"

section \<open>A concrete world\<close>

text \<open>
  Project \<open>acme\<close>, workspace \<open>prod\<close>; the import flag is set; the second page of roles
  holds the role; importing the versioning resource exits with a non-zero status.
\<close>

definition acme_run :: "trace \<Rightarrow> string list \<Rightarrow> string option \<Rightarrow> exn + string" where
  "acme_run tr argv inp =
     (if argv = [''terraform'', ''workspace'', ''show''] then Inr (''prod'' @ nl)
      else if argv = [''terraform'', ''console''] then
        (if inp = Some (''var.project_name'' @ nl)
         then Inr ([CHR 0x22] @ ''acme'' @ [CHR 0x22] @ nl)
         else Inr (''true'' @ nl))
      else if argv = import_argv ''aws_s3_bucket_versioning.terraform_state_versioning''
                       ''acme-state-files-prod-a1b2''
      then Inl (CalledProcessError ''exit status 1'' ''Error: Resource already managed'')
      else Inr [])"

definition acme_world :: world where
  "acme_world =
     \<lparr>subprocess_run = acme_run,
      boto3_session = (\<lambda>tr prof. None),
      list_buckets = (\<lambda>tr. Inr [''logs'', ''acme-state-files-prod-a1b2'']),
      list_roles = (\<lambda>tr. [Inr [''admin''], Inr [''acme-state-files-prod-role'', ''zeta'']])\<rparr>"

definition acme_importer :: importer where
  "acme_importer =
     \<lparr>profile = ''mfa'', workspace = ''prod'', project_name = ''acme'',
      resource_prefix = ''acme-state-files-prod''\<rparr>"

text \<open>The same world without a matching role.\<close>

definition no_role_world :: world where
  "no_role_world = acme_world\<lparr>list_roles := (\<lambda>tr. [Inr [''admin'']])\<rparr>"

text \<open>The same world where the import flag evaluates to \<open>false\<close>.\<close>

definition flag_off_world :: world where
  "flag_off_world = acme_world\<lparr>subprocess_run := (\<lambda>tr argv inp. Inr (''false'' @ nl))\<rparr>"

text \<open>The same world where both listings are refused: the second page of roles fails.\<close>

definition denied_world :: world where
  "denied_world =
     acme_world\<lparr>list_buckets := (\<lambda>tr. Inl (OtherException ''AccessDenied'')),
                list_roles := (\<lambda>tr. [Inr [''admin''], Inl (OtherException ''Throttling'')])\<rparr>"

text \<open>The same world without the tool: starting it raises.\<close>

definition no_tool_world :: world where
  "no_tool_world =
     acme_world\<lparr>subprocess_run := (\<lambda>tr argv inp. Inl (OtherException ''No such file or directory''))\<rparr>"

text \<open>The flag query of \<^verbatim>\<open>check_import_needed\<close>, as an event.\<close>

definition flag_check :: event where
  "flag_check =
     Subprocess [''terraform'', ''console''] (Some (''var.import_existing_resources'' @ nl))"

text \<open>The plan for the bucket and the role of that world.\<close>

definition acme_plan :: plan where
  "acme_plan =
     [(''aws_s3_bucket.terraform_state'', ''acme-state-files-prod-a1b2''),
      (''aws_s3_bucket_versioning.terraform_state_versioning'', ''acme-state-files-prod-a1b2''),
      (''aws_s3_bucket_server_side_encryption_configuration.terraform_state_encryption'',
       ''acme-state-files-prod-a1b2''),
      (''aws_s3_bucket_public_access_block.terraform_state_pab'', ''acme-state-files-prod-a1b2''),
      (''aws_s3_bucket_lifecycle_configuration.terraform_state_lifecycle'',
       ''acme-state-files-prod-a1b2''),
      (''aws_iam_role.terraform_state_role'', ''acme-state-files-prod-role''),
      (''aws_iam_role_policy.terraform_state_policy'',
       ''acme-state-files-prod-role:terraform-state-files-policy'')]"

text \<open>The trace of the two discoveries in that world.\<close>

definition acme_found :: trace where
  "acme_found =
     [ListBuckets, Print ''Found S3 bucket: acme-state-files-prod-a1b2'',
      GetPaginator, FetchRolesPage, FetchRolesPage,
      Print ''Found IAM role: acme-state-files-prod-role'']"


section \<open>Facts about the steps\<close>

lemma imports_of_append: "imports_of (xs @ ys) = imports_of xs @ imports_of ys"
  by (induction xs) (auto split: option.splits)

lemma import_call_argv: "import_call (Subprocess (import_argv a i) None) = Some (a, i)"
  by (simp add: import_argv_def)

lemma first_match_startswith: "first_match p ns = Some n \<Longrightarrow> py_startswith n p"
  by (induction ns) (auto split: if_splits)

lemma startswith_nonempty: "py_startswith n p \<Longrightarrow> p \<noteq> [] \<Longrightarrow> n \<noteq> []"
  by (auto simp: py_startswith_def)

lemma scan_pages_startswith:
  "scan_pages p pages tr = (Inr (Some n), tr') \<Longrightarrow> py_startswith n p"
  by (induction p pages tr rule: scan_pages.induct)
     (auto split: option.splits dest: first_match_startswith)

lemma discover_s3_bucket_startswith:
  "discover_s3_bucket W imp tr = (Inr (Some n), tr') \<Longrightarrow> py_startswith n (resource_prefix imp)"
  by (auto simp: discover_s3_bucket_def Let_def split: sum.splits option.splits if_splits
           dest: first_match_startswith)

lemma discover_iam_role_startswith:
  "discover_iam_role W imp tr = (Inr (Some n), tr') \<Longrightarrow> py_startswith n (resource_prefix imp)"
  by (auto simp: discover_iam_role_def split: sum.splits prod.splits if_splits
           dest: scan_pages_startswith)

lemma inv_prefix_nonempty: "importer_inv imp \<Longrightarrow> resource_prefix imp \<noteq> []"
  by (simp add: importer_inv_def prefix_of_def)

lemma init_inv: "init W prof ws tr = (Inr imp, tr') \<Longrightarrow> importer_inv imp"
  by (auto simp: init_def importer_inv_def split: option.splits sum.splits prod.splits if_splits)

lemma get_current_workspace_event:
  "Subprocess [''terraform'', ''workspace'', ''show''] None \<in> set (snd (get_current_workspace W tr))"
  by (auto simp: get_current_workspace_def Let_def split: sum.splits exn.splits)

lemma get_project_name_trace: "set tr \<subseteq> set (snd (get_project_name W tr))"
  by (auto simp: get_project_name_def Let_def split: sum.splits)

lemma init_None_event:
  "Subprocess [''terraform'', ''workspace'', ''show''] None \<in> set (snd (init W prof None tr))"
proof (cases "get_current_workspace W tr")
  case (Pair r tr1)
  then have ev: "Subprocess [''terraform'', ''workspace'', ''show''] None \<in> set tr1"
    using get_current_workspace_event [of W tr] by simp
  show ?thesis
  proof (cases r)
    case (Inl e)
    with Pair ev show ?thesis by (simp add: init_def)
  next
    case (Inr w)
    show ?thesis
    proof (cases "boto3_session W tr1 prof")
      case None
      obtain pn tr2 where g: "get_project_name W (tr1 @ [Session prof]) = (pn, tr2)"
        by (cases "get_project_name W (tr1 @ [Session prof])")
      with get_project_name_trace [of "tr1 @ [Session prof]" W] ev
      have "Subprocess [''terraform'', ''workspace'', ''show''] None \<in> set tr2"
        by auto
      with Pair Inr None g show ?thesis by (simp add: init_def)
    next
      case (Some e)
      with Pair Inr ev show ?thesis by (simp add: init_def)
    qed
  qed
qed

lemma scan_pages_error:
  assumes "\<forall>roles \<in> set pre. first_match p roles = None"
  shows "scan_pages p (map Inr pre @ Inl e # post) tr =
           (Inl e, tr @ replicate (Suc (length pre)) FetchRolesPage)"
  using assms
proof (induction pre arbitrary: tr)
  case Nil
  then show ?case by simp
next
  case (Cons roles pre)
  then show ?case by (simp add: replicate_app_Cons_same)
qed

subsection \<open>Evaluation in the concrete world\<close>

lemmas acme_defs = acme_world_def acme_importer_def acme_run_def nl_def import_argv_def

lemmas strip_defs = py_strip_def py_lstrip_def py_rstrip_def py_isspace_def py_whitespace_def
  py_strip_by_def py_strip_chars_def
  py_lower_def py_lower_char_def

text \<open>
  Stripping removes whitespace outside ASCII as well: a no-break space (U+00A0) before
  the newline, an ideographic space (U+3000) in front and an em space (U+2003) at the
  end; a letter outside ASCII (U+00E9) stays.
\<close>

lemma py_strip_no_break_space:
  "py_strip (''true'' @ [CHR 0xC2, CHR 0xA0] @ nl) = ''true''"
  by (simp add: strip_defs nl_def)

lemma py_strip_wide_spaces:
  "py_strip ([CHR 0xE3, CHR 0x80, CHR 0x80] @ '' prod'' @ [CHR 0xE2, CHR 0x80, CHR 0x83] @ nl)
     = ''prod''"
  by (simp add: strip_defs nl_def)

lemma py_strip_keeps_letter:
  "py_strip ([CHR 0xC3, CHR 0xA9] @ nl) = [CHR 0xC3, CHR 0xA9]"
  by (simp add: strip_defs nl_def)

lemma check_import_needed_no_break_space:
  assumes "subprocess_run W tr [''terraform'', ''console'']
             (Some (''var.import_existing_resources'' @ nl))
           = Inr (''true'' @ [CHR 0xC2, CHR 0xA0] @ nl)"
  shows "fst (check_import_needed W tr)"
  using assms by (simp add: check_import_needed_def strip_defs nl_def)

lemma acme_inv: "importer_inv acme_importer"
  by (simp add: importer_inv_def acme_importer_def prefix_of_def)

lemma acme_init:
  "init acme_world ''mfa'' None [] =
     (Inr acme_importer,
      [Subprocess [''terraform'', ''workspace'', ''show''] None, Session ''mfa'',
       Subprocess [''terraform'', ''console''] (Some (''var.project_name'' @ nl))])"
  by (simp add: init_def get_current_workspace_def get_project_name_def acme_defs
       strip_defs prefix_of_def)

lemma acme_bucket:
  "discover_s3_bucket acme_world acme_importer tr =
     (Inr (Some ''acme-state-files-prod-a1b2''),
      tr @ [ListBuckets, Print ''Found S3 bucket: acme-state-files-prod-a1b2''])"
  by (simp add: discover_s3_bucket_def acme_defs py_startswith_def)

lemma acme_role:
  "discover_iam_role acme_world acme_importer tr =
     (Inr (Some ''acme-state-files-prod-role''),
      tr @ [GetPaginator, FetchRolesPage, FetchRolesPage,
            Print ''Found IAM role: acme-state-files-prod-role''])"
  by (simp add: discover_iam_role_def acme_defs py_startswith_def)

lemma acme_commands:
  "get_import_commands acme_world acme_importer tr = (Inr acme_plan, tr @ acme_found)"
  by (simp add: get_import_commands_def acme_bucket acme_role acme_plan_def acme_found_def)

lemma acme_check: "check_import_needed acme_world tr = (True, tr @ [flag_check])"
  by (simp add: check_import_needed_def acme_defs flag_check_def strip_defs)


section \<open>Naming\<close>

text \<open>
  C6: the resource prefix is a function of the project and the workspace only, of the
  form \<open>{project}-state-files-{workspace}\<close>; every importer that the constructor returns
  carries the prefix of its own project name and workspace.
\<close>

theorem resource_prefix_form:
  "prefix_of pn ws = pn @ ''-state-files-'' @ ws
   \<and> (init W prof wopt tr = (Inr imp, tr') \<longrightarrow>
        resource_prefix imp = project_name imp @ ''-state-files-'' @ workspace imp)"
  using init_inv [of W prof wopt tr imp tr']
  by (auto simp: prefix_of_def importer_inv_def)

theorem resource_prefix_form_witness:
  "init acme_world ''mfa'' None [] =
     (Inr acme_importer,
      [Subprocess [''terraform'', ''workspace'', ''show''] None, Session ''mfa'',
       Subprocess [''terraform'', ''console''] (Some (''var.project_name'' @ nl))])
   \<and> project_name acme_importer = ''acme'' \<and> workspace acme_importer = ''prod''
   \<and> resource_prefix acme_importer = ''acme-state-files-prod''
   \<and> prefix_of ''acme'' ''prod'' = ''acme-state-files-prod''"
  using acme_init
    resource_prefix_form [of "''acme''" "''prod''" acme_world "''mfa''" None "[]" acme_importer
      "[Subprocess [''terraform'', ''workspace'', ''show''] None, Session ''mfa'',
        Subprocess [''terraform'', ''console''] (Some (''var.project_name'' @ nl))]"]
  by (simp add: acme_importer_def)

text \<open>
  C8: when the evaluation of \<open>var.project_name\<close> raises (whatever the exception), the
  project name is the default \<open>terraform-core\<close>; nothing is raised to the caller.
\<close>

theorem get_project_name_default_on_failure:
  assumes "subprocess_run W tr [''terraform'', ''console''] (Some (''var.project_name'' @ nl)) = Inl e"
  shows "get_project_name W tr =
     (''terraform-core'',
      tr @ [Subprocess [''terraform'', ''console''] (Some (''var.project_name'' @ nl))])"
  using assms by (simp add: get_project_name_def)

theorem get_project_name_default_on_failure_witness:
  "subprocess_run no_tool_world [] [''terraform'', ''console''] (Some (''var.project_name'' @ nl))
     = Inl (OtherException ''No such file or directory'')
   \<and> get_project_name no_tool_world [] =
       (''terraform-core'',
        [Subprocess [''terraform'', ''console''] (Some (''var.project_name'' @ nl))])"
proof -
  have h: "subprocess_run no_tool_world [] [''terraform'', ''console'']
             (Some (''var.project_name'' @ nl)) = Inl (OtherException ''No such file or directory'')"
    by (simp add: no_tool_world_def)
  show ?thesis
    using h get_project_name_default_on_failure [OF h] by simp
qed

text \<open>
  C9: an empty workspace argument is the same as no argument: the constructor does in
  both cases exactly the same, and that includes the query for the current workspace.
\<close>

theorem empty_workspace_override_queries_tool:
  "init W prof (Some []) tr = init W prof None tr
   \<and> Subprocess [''terraform'', ''workspace'', ''show''] None
       \<in> set (snd (init W prof (Some []) tr))"
  using init_None_event [of W prof tr] by (simp add: init_def)

theorem empty_workspace_override_queries_tool_witness:
  "init acme_world ''mfa'' (Some []) [] =
     (Inr acme_importer,
      [Subprocess [''terraform'', ''workspace'', ''show''] None, Session ''mfa'',
       Subprocess [''terraform'', ''console''] (Some (''var.project_name'' @ nl))])
   \<and> workspace acme_importer = ''prod''"
  using empty_workspace_override_queries_tool [of acme_world "''mfa''" "[]"] acme_init
  by (simp add: acme_importer_def)


section \<open>Discovery\<close>

text \<open>
  C7: an exception of class \<^verbatim>\<open>Exception\<close> raised by the bucket listing, or by the fetch
  of a page of roles before any role has matched, is caught inside the discoverer: a
  line with the error is printed and the result is \<^verbatim>\<open>None\<close>, not an exception.
\<close>

theorem discovery_error_is_none:
  "(list_buckets W tr = Inl e \<longrightarrow> is_Exception e \<longrightarrow>
      discover_s3_bucket W imp tr =
        (Inr None, tr @ [ListBuckets, Print (''Error discovering S3 bucket: '' @ exn_str e)]))
   \<and> (list_roles W tr = map Inr pre @ Inl e' # post \<longrightarrow>
        (\<forall>roles \<in> set pre. first_match (resource_prefix imp) roles = None) \<longrightarrow>
        is_Exception e' \<longrightarrow>
        discover_iam_role W imp tr =
          (Inr None, tr @ GetPaginator # replicate (Suc (length pre)) FetchRolesPage
                       @ [Print (''Error discovering IAM role: '' @ exn_str e')]))"
  by (auto simp: discover_s3_bucket_def discover_iam_role_def scan_pages_error)

theorem discovery_error_is_none_witness:
  "list_buckets denied_world [] = Inl (OtherException ''AccessDenied'')
   \<and> is_Exception (OtherException ''AccessDenied'')
   \<and> list_roles denied_world [] = map Inr [[''admin'']] @ Inl (OtherException ''Throttling'') # []
   \<and> first_match (resource_prefix acme_importer) [''admin''] = None
   \<and> is_Exception (OtherException ''Throttling'')
   \<and> discover_s3_bucket denied_world acme_importer [] =
       (Inr None, [ListBuckets, Print ''Error discovering S3 bucket: AccessDenied''])
   \<and> discover_iam_role denied_world acme_importer [] =
       (Inr None, [GetPaginator, FetchRolesPage, FetchRolesPage,
                   Print ''Error discovering IAM role: Throttling''])"
proof -
  have b: "list_buckets denied_world [] = Inl (OtherException ''AccessDenied'')"
    by (simp add: denied_world_def)
  have r: "list_roles denied_world [] = map Inr [[''admin'']] @ Inl (OtherException ''Throttling'') # []"
    by (simp add: denied_world_def)
  have m: "\<forall>roles \<in> set [[''admin'']]. first_match (resource_prefix acme_importer) roles = None"
    by (simp add: acme_importer_def py_startswith_def)
  have x: "is_Exception (OtherException ''AccessDenied'')" "is_Exception (OtherException ''Throttling'')"
    by simp_all
  from discovery_error_is_none
    [of denied_world "[]" "OtherException ''AccessDenied''" acme_importer "[[''admin'']]"
        "OtherException ''Throttling''" "[]"]
  have "discover_s3_bucket denied_world acme_importer [] =
          (Inr None, [ListBuckets, Print ''Error discovering S3 bucket: AccessDenied''])"
    and "discover_iam_role denied_world acme_importer [] =
          (Inr None, [GetPaginator, FetchRolesPage, FetchRolesPage,
                      Print ''Error discovering IAM role: Throttling''])"
    using b r m x by (simp_all add: numeral_2_eq_2)
  moreover have "first_match (resource_prefix acme_importer) [''admin''] = None"
    using m by simp
  ultimately show ?thesis
    using b r x by blast
qed

section \<open>The import plan\<close>

text \<open>
  C1: when the discoverer returns a bucket and a role, \<^verbatim>\<open>get_import_commands\<close> returns
  exactly seven operations in the fixed order: five for the bucket id (bucket,
  versioning, encryption, public access block, lifecycle), then the role and its inline
  policy, whose id is the role id followed by \<open>:terraform-state-files-policy\<close>. The
  importer is one whose prefix is the prefix of its project and workspace, as the
  constructor builds it.
\<close>

theorem get_import_commands_both_found:
  assumes "importer_inv imp"
    and "discover_s3_bucket W imp tr = (Inr (Some b), tr1)"
    and "discover_iam_role W imp tr1 = (Inr (Some r), tr2)"
  shows "get_import_commands W imp tr =
     (Inr [(''aws_s3_bucket.terraform_state'', b),
           (''aws_s3_bucket_versioning.terraform_state_versioning'', b),
           (''aws_s3_bucket_server_side_encryption_configuration.terraform_state_encryption'', b),
           (''aws_s3_bucket_public_access_block.terraform_state_pab'', b),
           (''aws_s3_bucket_lifecycle_configuration.terraform_state_lifecycle'', b),
           (''aws_iam_role.terraform_state_role'', r),
           (''aws_iam_role_policy.terraform_state_policy'', r @ '':terraform-state-files-policy'')],
      tr2)"
proof -
  have p: "resource_prefix imp \<noteq> []"
    using assms(1) by (rule inv_prefix_nonempty)
  have b: "b \<noteq> []"
    using discover_s3_bucket_startswith [OF assms(2)] p by (rule startswith_nonempty)
  have r: "r \<noteq> []"
    using discover_iam_role_startswith [OF assms(3)] p by (rule startswith_nonempty)
  show ?thesis
    using assms(2,3) b r by (simp add: get_import_commands_def)
qed

theorem get_import_commands_both_found_witness:
  "importer_inv acme_importer
   \<and> discover_s3_bucket acme_world acme_importer [] =
       (Inr (Some ''acme-state-files-prod-a1b2''),
        [ListBuckets, Print ''Found S3 bucket: acme-state-files-prod-a1b2''])
   \<and> discover_iam_role acme_world acme_importer
         [ListBuckets, Print ''Found S3 bucket: acme-state-files-prod-a1b2''] =
       (Inr (Some ''acme-state-files-prod-role''), acme_found)
   \<and> get_import_commands acme_world acme_importer [] = (Inr acme_plan, acme_found)
   \<and> length acme_plan = 7
   \<and> last acme_plan = (''aws_iam_role_policy.terraform_state_policy'',
                        ''acme-state-files-prod-role:terraform-state-files-policy'')"
proof -
  have h2: "discover_s3_bucket acme_world acme_importer [] =
       (Inr (Some ''acme-state-files-prod-a1b2''),
        [ListBuckets, Print ''Found S3 bucket: acme-state-files-prod-a1b2''])"
    using acme_bucket [of "[]"] by simp
  have h3: "discover_iam_role acme_world acme_importer
         [ListBuckets, Print ''Found S3 bucket: acme-state-files-prod-a1b2''] =
       (Inr (Some ''acme-state-files-prod-role''), acme_found)"
    by (simp add: acme_role acme_found_def)
  have "get_import_commands acme_world acme_importer [] = (Inr acme_plan, acme_found)"
    using get_import_commands_both_found [OF acme_inv h2 h3] by (simp add: acme_plan_def)
  moreover have "length acme_plan = 7"
    and "last acme_plan = (''aws_iam_role_policy.terraform_state_policy'',
                           ''acme-state-files-prod-role:terraform-state-files-policy'')"
    by (simp_all add: acme_plan_def)
  ultimately show ?thesis
    using acme_inv h2 h3 by blast
qed

text \<open>
  C2: when the discoverer returns \<^verbatim>\<open>None\<close> for the bucket, for the role or for both,
  the plan is empty; and a plan that is not empty comes from a discovered bucket and a
  discovered role.
\<close>

theorem get_import_commands_empty_unless_both:
  "(discover_s3_bucket W imp tr = (Inr b, tr1) \<longrightarrow> discover_iam_role W imp tr1 = (Inr r, tr2) \<longrightarrow>
      b = None \<or> r = None \<longrightarrow> fst (get_import_commands W imp tr) = Inr [])
   \<and> (fst (get_import_commands W imp tr) = Inr cmds \<longrightarrow> cmds \<noteq> [] \<longrightarrow>
        (\<exists>b' r' t1. discover_s3_bucket W imp tr = (Inr (Some b'), t1)
           \<and> fst (discover_iam_role W imp t1) = Inr (Some r')))"
  by (auto simp: get_import_commands_def split: prod.splits sum.splits option.splits if_splits)

theorem get_import_commands_empty_unless_both_witness:
  "discover_s3_bucket no_role_world acme_importer [] =
       (Inr (Some ''acme-state-files-prod-a1b2''),
        [ListBuckets, Print ''Found S3 bucket: acme-state-files-prod-a1b2''])
   \<and> discover_iam_role no_role_world acme_importer
         [ListBuckets, Print ''Found S3 bucket: acme-state-files-prod-a1b2''] =
       (Inr None,
        [ListBuckets, Print ''Found S3 bucket: acme-state-files-prod-a1b2'',
         GetPaginator, FetchRolesPage])
   \<and> fst (get_import_commands no_role_world acme_importer []) = Inr []
   \<and> fst (get_import_commands acme_world acme_importer []) = Inr acme_plan
   \<and> acme_plan \<noteq> []
   \<and> (\<exists>b' r' t1. discover_s3_bucket acme_world acme_importer [] = (Inr (Some b'), t1)
          \<and> fst (discover_iam_role acme_world acme_importer t1) = Inr (Some r'))"
proof -
  have h1: "discover_s3_bucket no_role_world acme_importer [] =
       (Inr (Some ''acme-state-files-prod-a1b2''),
        [ListBuckets, Print ''Found S3 bucket: acme-state-files-prod-a1b2''])"
    by (simp add: discover_s3_bucket_def no_role_world_def acme_defs py_startswith_def)
  have h2: "discover_iam_role no_role_world acme_importer
         [ListBuckets, Print ''Found S3 bucket: acme-state-files-prod-a1b2''] =
       (Inr None,
        [ListBuckets, Print ''Found S3 bucket: acme-state-files-prod-a1b2'',
         GetPaginator, FetchRolesPage])"
    by (simp add: discover_iam_role_def no_role_world_def acme_defs py_startswith_def)
  have h3: "fst (get_import_commands acme_world acme_importer []) = Inr acme_plan"
    by (simp add: acme_commands)
  have h4: "acme_plan \<noteq> []"
    by (simp add: acme_plan_def)
  have "fst (get_import_commands no_role_world acme_importer []) = Inr []"
    using get_import_commands_empty_unless_both
      [of no_role_world acme_importer "[]" "Some ''acme-state-files-prod-a1b2''"
          "[ListBuckets, Print ''Found S3 bucket: acme-state-files-prod-a1b2'']" None
          "[ListBuckets, Print ''Found S3 bucket: acme-state-files-prod-a1b2'',
            GetPaginator, FetchRolesPage]"] h1 h2
    by blast
  moreover have "\<exists>b' r' t1. discover_s3_bucket acme_world acme_importer [] = (Inr (Some b'), t1)
          \<and> fst (discover_iam_role acme_world acme_importer t1) = Inr (Some r')"
    using get_import_commands_empty_unless_both
      [of acme_world acme_importer "[]" _ _ _ _ acme_plan] h3 h4
    by blast
  ultimately show ?thesis
    using h1 h2 h3 h4 by blast
qed

section \<open>The import flag\<close>

text \<open>
  C5: in both modes, when the evaluation of \<open>var.import_existing_resources\<close> raises or
  prints anything but \<open>true\<close>, \<^verbatim>\<open>run_import\<close> returns after the flag query and one printed
  line: no import is invoked and no listing interface is called.
\<close>

theorem run_import_gate_noop:
  assumes "subprocess_run W tr [''terraform'', ''console'']
             (Some (''var.import_existing_resources'' @ nl)) = Inl e
           \<or> (\<exists>out. subprocess_run W tr [''terraform'', ''console'']
                 (Some (''var.import_existing_resources'' @ nl)) = Inr out
               \<and> py_lower (py_strip out) \<noteq> ''true'')"
  shows "run_import W imp dry_run tr =
     (Inr (), tr @ [flag_check,
                    Print ''Import not needed: var.import_existing_resources is not set to true''])
     \<and> imports_of (snd (run_import W imp dry_run tr)) = imports_of tr
     \<and> discovery_of (snd (run_import W imp dry_run tr)) = discovery_of tr"
  using assms
  by (auto simp: run_import_def check_import_needed_def imports_of_append discovery_of_def
        flag_check_def)

theorem run_import_gate_noop_witness:
  "(\<exists>out. subprocess_run flag_off_world [] [''terraform'', ''console'']
        (Some (''var.import_existing_resources'' @ nl)) = Inr out
      \<and> py_lower (py_strip out) \<noteq> ''true'')
   \<and> run_import flag_off_world acme_importer False [] =
       (Inr (), [flag_check,
                 Print ''Import not needed: var.import_existing_resources is not set to true''])
   \<and> subprocess_run no_tool_world [] [''terraform'', ''console'']
        (Some (''var.import_existing_resources'' @ nl)) = Inl (OtherException ''No such file or directory'')
   \<and> run_import no_tool_world acme_importer True [] =
       (Inr (), [flag_check,
                 Print ''Import not needed: var.import_existing_resources is not set to true''])
   \<and> imports_of (snd (run_import flag_off_world acme_importer False [])) = []
   \<and> discovery_of (snd (run_import flag_off_world acme_importer False [])) = []"
proof -
  have h1: "\<exists>out. subprocess_run flag_off_world [] [''terraform'', ''console'']
        (Some (''var.import_existing_resources'' @ nl)) = Inr out
      \<and> py_lower (py_strip out) \<noteq> ''true''"
    by (simp add: flag_off_world_def nl_def strip_defs)
  have h2: "subprocess_run no_tool_world [] [''terraform'', ''console'']
        (Some (''var.import_existing_resources'' @ nl)) = Inl (OtherException ''No such file or directory'')"
    by (simp add: no_tool_world_def)
  note off = run_import_gate_noop [of flag_off_world "[]" _ acme_importer False, OF disjI2, OF h1]
  note absent = run_import_gate_noop [of no_tool_world "[]" _ acme_importer True, OF disjI1, OF h2]
  have a1: "run_import flag_off_world acme_importer False [] =
       (Inr (), [flag_check,
                 Print ''Import not needed: var.import_existing_resources is not set to true''])"
    using off [THEN conjunct1] by simp
  have a2: "imports_of (snd (run_import flag_off_world acme_importer False [])) = []"
    using off [THEN conjunct2, THEN conjunct1] by simp
  have a3: "discovery_of (snd (run_import flag_off_world acme_importer False [])) = []"
    using off [THEN conjunct2, THEN conjunct2] by (simp add: discovery_of_def)
  have b1: "run_import no_tool_world acme_importer True [] =
       (Inr (), [flag_check,
                 Print ''Import not needed: var.import_existing_resources is not set to true''])"
    using absent [THEN conjunct1] by simp
  show ?thesis
    using h1 h2 a1 a2 a3 b1 by blast
qed


section \<open>The import loop\<close>

lemma import_loop_dry:
  "import_loop W True cmds tr =
     (Inr (), tr @ map (\<lambda>(a, i). Print (''[DRY RUN] Would run: '' @ py_join '' '' (import_argv a i))) cmds)"
  by (induction cmds arbitrary: tr) (auto simp: Let_def)

lemma imports_of_prints: "imports_of (map (\<lambda>(a, i). Print (f a i)) cmds) = []"
  by (induction cmds) auto

lemma import_loop_other_calls:
  "other_calls (snd (import_loop W d cmds tr)) = other_calls tr"
proof (induction cmds arbitrary: tr)
  case Nil
  show ?case by simp
next
  case (Cons c cmds)
  obtain a i where c: "c = (a, i)" by (cases c)
  show ?case
  proof (cases d)
    case True
    then show ?thesis using Cons c by (simp add: Let_def other_calls_def)
  next
    case False
    show ?thesis
    proof (cases "subprocess_run W (tr @ [Print (''Running: '' @ py_join '' '' (import_argv a i))])
                    (import_argv a i) None")
      case (Inr out)
      then show ?thesis
        using Cons c False by (simp add: Let_def other_calls_def import_call_argv)
    next
      case (Inl e)
      then show ?thesis
        using Cons c False
        by (cases e) (simp_all add: Let_def other_calls_def import_call_argv)
    qed
  qed
qed



subsection \<open>No step before the loop invokes an import\<close>

lemma scan_pages_imports: "imports_of (snd (scan_pages p pages tr)) = imports_of tr"
  by (induction p pages tr rule: scan_pages.induct)
     (auto simp: imports_of_append split: option.splits)

lemma discover_s3_bucket_imports: "imports_of (snd (discover_s3_bucket W imp tr)) = imports_of tr"
  by (auto simp: discover_s3_bucket_def Let_def imports_of_append split: sum.splits option.splits)

lemma discover_iam_role_imports: "imports_of (snd (discover_iam_role W imp tr)) = imports_of tr"
proof -
  have "imports_of (snd (scan_pages (resource_prefix imp) (list_roles W tr) (tr @ [GetPaginator])))
          = imports_of tr"
    by (simp add: scan_pages_imports imports_of_append)
  then show ?thesis
    by (auto simp: discover_iam_role_def imports_of_append split: prod.splits sum.splits)
qed

lemma get_import_commands_imports:
  "imports_of (snd (get_import_commands W imp tr)) = imports_of tr"
proof -
  obtain b t1 where b: "discover_s3_bucket W imp tr = (b, t1)"
    by (cases "discover_s3_bucket W imp tr")
  obtain r t2 where r: "discover_iam_role W imp t1 = (r, t2)"
    by (cases "discover_iam_role W imp t1")
  have 1: "imports_of t1 = imports_of tr"
    using discover_s3_bucket_imports [of W imp tr] b by simp
  have 2: "imports_of t2 = imports_of t1"
    using discover_iam_role_imports [of W imp t1] r by simp
  show ?thesis
    using b r 1 2
    by (auto simp: get_import_commands_def imports_of_append split: sum.splits option.splits)
qed

lemma check_import_needed_trace: "snd (check_import_needed W tr) = tr @ [flag_check]"
  by (simp add: check_import_needed_def Let_def flag_check_def split: sum.splits)

lemma flag_check_no_import: "import_call flag_check = None"
  by (simp add: flag_check_def)

lemma banner_imports: "imports_of (banner imp) = []"
  by (simp add: banner_def)

lemma run_import_dry_imports: "imports_of (snd (run_import W imp True tr)) = imports_of tr"
proof -
  obtain n t1 where c: "check_import_needed W tr = (n, t1)"
    by (cases "check_import_needed W tr")
  have 1: "imports_of t1 = imports_of tr"
    using check_import_needed_trace [of W tr] c
    by (simp add: imports_of_append flag_check_no_import)
  obtain g t2 where g: "get_import_commands W imp (t1 @ banner imp) = (g, t2)"
    by (cases "get_import_commands W imp (t1 @ banner imp)")
  have 2: "imports_of t2 = imports_of tr"
    using get_import_commands_imports [of W imp "t1 @ banner imp"] g 1
    by (simp add: imports_of_append banner_imports)
  show ?thesis
    using c g 1 2
    by (auto simp: run_import_def import_loop_dry imports_of_append imports_of_prints
             split: sum.splits bool.splits)
qed








section \<open>Dry run\<close>

lemma other_calls_append: "other_calls (xs @ ys) = other_calls xs @ other_calls ys"
  by (simp add: other_calls_def)

lemma other_calls_fetch: "other_calls [FetchRolesPage] = [FetchRolesPage]"
  by (simp add: other_calls_def)

lemma other_calls_print: "other_calls (Print s # xs) = other_calls xs"
  by (simp add: other_calls_def)

lemma other_calls_Nil: "other_calls [] = []"
  by (simp add: other_calls_def)

lemma scan_pages_other_calls:
  "\<exists>n. other_calls (snd (scan_pages p pages tr)) = other_calls tr @ replicate n FetchRolesPage"
proof (induction pages arbitrary: tr)
  case Nil
  have "other_calls (snd (scan_pages p [] tr)) = other_calls tr @ replicate 0 FetchRolesPage"
    by simp
  then show ?case by (rule exI)
next
  case (Cons page pages)
  show ?case
  proof (cases page)
    case (Inl e)
    have "other_calls (snd (scan_pages p (page # pages) tr))
            = other_calls tr @ replicate (Suc 0) FetchRolesPage"
      using Inl by (simp add: other_calls_append other_calls_fetch)
    then show ?thesis by (rule exI)
  next
    case (Inr roles)
    show ?thesis
    proof (cases "first_match p roles")
      case None
      from Cons [of "tr @ [FetchRolesPage]"] obtain n where
        "other_calls (snd (scan_pages p pages (tr @ [FetchRolesPage])))
           = other_calls (tr @ [FetchRolesPage]) @ replicate n FetchRolesPage"
        by (rule exE)
      then have "other_calls (snd (scan_pages p (page # pages) tr))
           = other_calls tr @ replicate (Suc n) FetchRolesPage"
        using Inr None by (simp add: other_calls_append other_calls_fetch)
      then show ?thesis by (rule exI)
    next
      case (Some x)
      have "other_calls (snd (scan_pages p (page # pages) tr))
           = other_calls tr @ replicate (Suc 0) FetchRolesPage"
        using Inr Some by (simp add: other_calls_def)
      then show ?thesis by (rule exI)
    qed
  qed
qed

lemma discover_s3_bucket_other_calls:
  "other_calls (snd (discover_s3_bucket W imp tr)) = other_calls tr @ [ListBuckets]"
  by (simp add: discover_s3_bucket_def Let_def other_calls_def split: sum.splits option.splits)

lemma discover_iam_role_other_calls:
  "\<exists>n. other_calls (snd (discover_iam_role W imp tr))
         = other_calls tr @ GetPaginator # replicate n FetchRolesPage"
proof -
  let ?s = "scan_pages (resource_prefix imp) (list_roles W tr) (tr @ [GetPaginator])"
  obtain n where n: "other_calls (snd ?s) = other_calls (tr @ [GetPaginator]) @ replicate n FetchRolesPage"
    using scan_pages_other_calls [of "resource_prefix imp" "list_roles W tr" "tr @ [GetPaginator]"]
    by (rule exE)
  obtain r t where s: "?s = (r, t)"
    by (cases ?s)
  have "other_calls (snd (discover_iam_role W imp tr)) = other_calls t"
    using s by (cases r) (simp_all add: discover_iam_role_def other_calls_append other_calls_print other_calls_Nil)
  with n s have "other_calls (snd (discover_iam_role W imp tr))
         = other_calls tr @ GetPaginator # replicate n FetchRolesPage"
    by (simp add: other_calls_def)
  then show ?thesis by (rule exI)
qed

lemma get_import_commands_other_calls:
  "(\<exists>rest. other_calls (snd (get_import_commands W imp tr)) = other_calls tr @ ListBuckets # rest)
   \<and> (\<forall>cmds. fst (get_import_commands W imp tr) = Inr cmds \<longrightarrow>
         (\<exists>n. other_calls (snd (get_import_commands W imp tr))
                = other_calls tr @ ListBuckets # GetPaginator # replicate n FetchRolesPage))"
proof -
  obtain b t1 where b: "discover_s3_bucket W imp tr = (b, t1)"
    by (cases "discover_s3_bucket W imp tr")
  obtain r t2 where r: "discover_iam_role W imp t1 = (r, t2)"
    by (cases "discover_iam_role W imp t1")
  have 1: "other_calls t1 = other_calls tr @ [ListBuckets]"
    using discover_s3_bucket_other_calls [of W imp tr] b by simp
  obtain n where 2: "other_calls t2 = other_calls t1 @ GetPaginator # replicate n FetchRolesPage"
    using discover_iam_role_other_calls [of W imp t1] r by auto
  show ?thesis
  proof (cases b)
    case (Inl e)
    with b 1 show ?thesis by (simp add: get_import_commands_def)
  next
    case (Inr bo)
    have "other_calls (snd (get_import_commands W imp tr)) = other_calls t2"
    proof (cases r)
      case (Inl e)
      with b r Inr show ?thesis by (simp add: get_import_commands_def)
    next
      case (Inr ro)
      with b r \<open>b = Inr bo\<close> show ?thesis
        by (cases bo; cases ro)
           (simp_all add: get_import_commands_def other_calls_append other_calls_print other_calls_Nil)
    qed
    with 1 2 show ?thesis by simp
  qed
qed

lemma banner_other_calls: "other_calls (banner imp) = []"
  by (simp add: banner_def other_calls_def)

lemma flag_check_other_call: "other_calls [flag_check] = [flag_check]"
  by (simp add: other_calls_def flag_check_def)

lemma run_import_other_calls_mode:
  "other_calls (snd (run_import W imp True tr)) = other_calls (snd (run_import W imp False tr))"
proof -
  obtain n t1 where c: "check_import_needed W tr = (n, t1)"
    by (cases "check_import_needed W tr")
  obtain g t2 where g: "get_import_commands W imp (t1 @ banner imp) = (g, t2)"
    by (cases "get_import_commands W imp (t1 @ banner imp)")
  show ?thesis
  proof (cases n)
    case False
    with c show ?thesis by (simp add: run_import_def)
  next
    case True
    show ?thesis
    proof (cases g)
      case (Inl e)
      with c g True show ?thesis by (simp add: run_import_def)
    next
      case (Inr cmds)
      with c g True show ?thesis by (simp add: run_import_def import_loop_other_calls)
    qed
  qed
qed

lemma run_import_dry_calls:
  "(\<exists>rest. other_calls (snd (run_import W imp True tr)) = other_calls tr @ flag_check # rest)
   \<and> (fst (check_import_needed W tr) \<longrightarrow>
        (\<exists>rest. other_calls (snd (run_import W imp True tr))
                  = other_calls tr @ flag_check # ListBuckets # rest))
   \<and> (fst (check_import_needed W tr) \<longrightarrow> fst (run_import W imp True tr) = Inr () \<longrightarrow>
        (\<exists>n. other_calls (snd (run_import W imp True tr))
               = other_calls tr @ flag_check # ListBuckets # GetPaginator # replicate n FetchRolesPage))"
proof -
  obtain n t1 where c: "check_import_needed W tr = (n, t1)"
    by (cases "check_import_needed W tr")
  have t1: "t1 = tr @ [flag_check]"
    using check_import_needed_trace [of W tr] c by simp
  have 1: "other_calls t1 = other_calls tr @ [flag_check]"
    unfolding t1 by (simp add: other_calls_append flag_check_other_call)
  show ?thesis
  proof (cases n)
    case False
    have "run_import W imp True tr =
            (Inr (), t1 @ [Print ''Import not needed: var.import_existing_resources is not set to true''])"
      using c False by (simp add: run_import_def)
    then have "other_calls (snd (run_import W imp True tr)) = other_calls tr @ flag_check # []"
      using 1 by (simp add: other_calls_append other_calls_print other_calls_Nil)
    then have "\<exists>rest. other_calls (snd (run_import W imp True tr)) = other_calls tr @ flag_check # rest"
      by (rule exI)
    moreover have "\<not> fst (check_import_needed W tr)"
      using c False by simp
    ultimately show ?thesis by blast
  next
    case True
    obtain g t2 where g: "get_import_commands W imp (t1 @ banner imp) = (g, t2)"
      by (cases "get_import_commands W imp (t1 @ banner imp)")
    have b: "other_calls (t1 @ banner imp) = other_calls tr @ [flag_check]"
      using 1 by (simp add: other_calls_append banner_other_calls)
    have r: "other_calls (snd (run_import W imp True tr)) = other_calls t2"
    proof (cases g)
      case (Inl e)
      with c g True show ?thesis by (simp add: run_import_def)
    next
      case (Inr cmds)
      with c g True show ?thesis
        by (simp add: run_import_def import_loop_other_calls other_calls_append other_calls_print other_calls_Nil)
    qed
    note G = get_import_commands_other_calls [of W imp "t1 @ banner imp"]
    from G [THEN conjunct1] obtain rest where
      "other_calls (snd (get_import_commands W imp (t1 @ banner imp)))
         = other_calls (t1 @ banner imp) @ ListBuckets # rest"
      by (rule exE)
    then have 2: "other_calls (snd (run_import W imp True tr))
                    = other_calls tr @ flag_check # ListBuckets # rest"
      using g b r by simp
    have 3: "\<exists>k. other_calls (snd (run_import W imp True tr))
                 = other_calls tr @ flag_check # ListBuckets # GetPaginator # replicate k FetchRolesPage"
      if ok: "fst (run_import W imp True tr) = Inr ()"
    proof (cases g)
      case (Inl e)
      with c g True ok show ?thesis by (simp add: run_import_def)
    next
      case (Inr cmds)
      then have "fst (get_import_commands W imp (t1 @ banner imp)) = Inr cmds"
        using g by simp
      with G [THEN conjunct2] obtain k where
        "other_calls (snd (get_import_commands W imp (t1 @ banner imp)))
           = other_calls (t1 @ banner imp) @ ListBuckets # GetPaginator # replicate k FetchRolesPage"
        by blast
      then have "other_calls (snd (run_import W imp True tr))
                 = other_calls tr @ flag_check # ListBuckets # GetPaginator # replicate k FetchRolesPage"
        using g b r by simp
      then show ?thesis by (rule exI)
    qed
    have "\<exists>rest. other_calls (snd (run_import W imp True tr)) = other_calls tr @ flag_check # rest"
      using 2 by (rule exI)
    moreover have "\<exists>rest. other_calls (snd (run_import W imp True tr))
                  = other_calls tr @ flag_check # ListBuckets # rest"
      using 2 by (rule exI)
    ultimately show ?thesis
      using 3 by blast
  qed
qed


lemma acme_found_calls:
  "other_calls acme_found = [ListBuckets, GetPaginator, FetchRolesPage, FetchRolesPage]"
  by (simp add: acme_found_def other_calls_def)

lemma other_calls_flag: "other_calls (flag_check # xs) = flag_check # other_calls xs"
  by (simp add: other_calls_def flag_check_def)

lemma acme_plan_nonempty: "acme_plan \<noteq> []"
  by (simp add: acme_plan_def)

text \<open>
  C10: a dry run is not free of external calls. Apart from the import invocations, it
  makes exactly the calls that the run in Apply mode makes, in the same order: always
  the query of the import flag; when the flag is set, the bucket listing; and, when the
  run returns normally, the role listing (the paginator and the pages it fetches) as
  well. What a dry run leaves out is the import invocations: it makes none.
\<close>

theorem dry_run_still_discovers:
  "other_calls (snd (run_import W imp True tr)) = other_calls (snd (run_import W imp False tr))
   \<and> (\<exists>rest. other_calls (snd (run_import W imp True tr)) = other_calls tr @ flag_check # rest)
   \<and> (fst (check_import_needed W tr) \<longrightarrow>
        (\<exists>rest. other_calls (snd (run_import W imp True tr))
                  = other_calls tr @ flag_check # ListBuckets # rest))
   \<and> (fst (check_import_needed W tr) \<longrightarrow> fst (run_import W imp True tr) = Inr () \<longrightarrow>
        (\<exists>n. other_calls (snd (run_import W imp True tr))
               = other_calls tr @ flag_check # ListBuckets # GetPaginator # replicate n FetchRolesPage))
   \<and> imports_of (snd (run_import W imp True tr)) = imports_of tr"
proof -
  note d = run_import_dry_calls [of W imp tr]
  show ?thesis
    using run_import_other_calls_mode [of W imp tr] d [THEN conjunct1]
      d [THEN conjunct2, THEN conjunct1] d [THEN conjunct2, THEN conjunct2]
      run_import_dry_imports [of W imp tr]
    by (intro conjI) assumption+
qed

theorem dry_run_still_discovers_witness:
  "fst (check_import_needed acme_world [])
   \<and> fst (run_import acme_world acme_importer True []) = Inr ()
   \<and> other_calls (snd (run_import acme_world acme_importer True []))
       = [flag_check, ListBuckets, GetPaginator, FetchRolesPage, FetchRolesPage]
   \<and> other_calls (snd (run_import acme_world acme_importer False []))
       = [flag_check, ListBuckets, GetPaginator, FetchRolesPage, FetchRolesPage]
   \<and> imports_of (snd (run_import acme_world acme_importer True [])) = []"
proof -
  have h1: "fst (check_import_needed acme_world [])"
    by (simp add: acme_check)
  have h2: "fst (run_import acme_world acme_importer True []) = Inr ()"
    by (simp add: run_import_def acme_check acme_commands acme_plan_nonempty import_loop_dry)
  have d: "other_calls (snd (run_import acme_world acme_importer True []))
       = [flag_check, ListBuckets, GetPaginator, FetchRolesPage, FetchRolesPage]"
    by (simp add: run_import_def acme_check acme_commands acme_plan_nonempty
          import_loop_other_calls other_calls_append other_calls_print other_calls_Nil
          banner_other_calls other_calls_flag acme_found_calls)
  note t = dry_run_still_discovers [of acme_world acme_importer "[]"]
  have a: "other_calls (snd (run_import acme_world acme_importer False []))
       = [flag_check, ListBuckets, GetPaginator, FetchRolesPage, FetchRolesPage]"
    using t [THEN conjunct1] d by simp
  have i: "imports_of (snd (run_import acme_world acme_importer True [])) = []"
    using t [THEN conjunct2, THEN conjunct2, THEN conjunct2, THEN conjunct2] by simp
  show ?thesis
    using h1 h2 d a i by blast
qed


end
